theory Spec2Isabelle
  imports Main
begin

section \<open>Values, errors and the session\<close>

text \<open>
  The program is \<^verbatim>\<open>src/mbta/mbta.py\<close>, a slot-filling dialog for a voice skill. The
  values it handles are the slot values delivered by the voice platform: a string, or
  Python's \<^verbatim>\<open>None\<close> when the platform delivered nothing.
\<close>

datatype pyval = PNone | PStr string

text \<open>The exceptions the modelled code can raise.\<close>

datatype error = TypeError | KeyError

text \<open>Python truthiness, as tested by \<^verbatim>\<open>if slot and value\<close> and \<^verbatim>\<open>if seq["transition_msg"]\<close>.\<close>

fun truthy :: "pyval \<Rightarrow> bool" where
  "truthy PNone = False"
| "truthy (PStr s) = (s \<noteq> [])"

text \<open>What the conversion \<^verbatim>\<open>%s\<close> of a format string renders.\<close>

fun py_str :: "pyval \<Rightarrow> string" where
  "py_str PNone = ''None''"
| "py_str (PStr s) = s"

text \<open>Python's \<^verbatim>\<open>+\<close>: two strings are concatenated, \<^verbatim>\<open>None\<close> on either side raises.\<close>

fun py_add :: "pyval \<Rightarrow> pyval \<Rightarrow> error + pyval" where
  "py_add (PStr a) (PStr b) = Inr (PStr (a @ b))"
| "py_add _ _ = Inl TypeError"

text \<open>
  \<^verbatim>\<open>session.attributes\<close> is a dictionary from slot names to values. It is global in the
  source; here it is passed in and returned.
\<close>

type_synonym session = "string \<rightharpoonup> pyval"

text \<open>The subscript \<^verbatim>\<open>session.attributes[k]\<close> raises on a missing key.\<close>

definition getitem :: "session \<Rightarrow> string \<Rightarrow> error + pyval" where
  "getitem attributes k = (case attributes k of None \<Rightarrow> Inl KeyError | Some v \<Rightarrow> Inr v)"

section \<open>The dialog definition\<close>

text \<open>
  A slot is a dictionary with the keys \<^verbatim>\<open>slot_name\<close> and \<^verbatim>\<open>prompt\<close>; a step of the
  dialog is a dictionary with the keys \<^verbatim>\<open>intent\<close> (a function of no argument that reads
  the session), \<^verbatim>\<open>slots\<close> (a list of slots, or \<^verbatim>\<open>None\<close>) and \<^verbatim>\<open>transition_msg\<close>
  (a string, or \<^verbatim>\<open>None\<close>).
\<close>

record slot_entry =
  slot_name :: string
  prompt :: string

record step =
  intent :: "session \<Rightarrow> error + pyval"
  slots :: "slot_entry list option"
  transition_msg :: pyval

text \<open>
  \<^verbatim>\<open>get_next_train\<close> reads three session entries, in the order Direction, Line, Station,
  and formats them; the local \<^verbatim>\<open>time\<close> is the constant 5, which \<^verbatim>\<open>%i\<close> renders as
  \<^verbatim>\<open>5\<close>.
\<close>

definition get_next_train :: "session \<Rightarrow> error + pyval" where
  "get_next_train attributes =
     (case getitem attributes ''Direction'' of
        Inl e \<Rightarrow> Inl e
      | Inr direction \<Rightarrow>
          (case getitem attributes ''Line'' of
             Inl e \<Rightarrow> Inl e
           | Inr line \<Rightarrow>
               (case getitem attributes ''Station'' of
                  Inl e \<Rightarrow> Inl e
                | Inr station \<Rightarrow>
                    Inr (PStr (''The next '' @ py_str direction @ '' '' @ py_str line
                               @ '' train from '' @ py_str station
                               @ '' leaves in '' @ ''5'' @ '' minutes.'')))))"

text \<open>\<^verbatim>\<open>send_text\<close> is \<^verbatim>\<open>pass\<close>: it returns \<^verbatim>\<open>None\<close>.\<close>

definition send_text :: "session \<Rightarrow> error + pyval" where
  "send_text attributes = Inr PNone"

definition schedule_slots :: "slot_entry list" where
  "schedule_slots =
     [\<lparr>slot_name = ''Station'', prompt = ''What station?''\<rparr>,
      \<lparr>slot_name = ''Line'', prompt = ''What line?''\<rparr>,
      \<lparr>slot_name = ''Direction'', prompt = ''Inbound or outbound?''\<rparr>]"

definition dialog :: "step list" where
  "dialog =
     [\<lparr>intent = get_next_train, slots = Some schedule_slots,
       transition_msg = PStr ''Should I text you?''\<rparr>,
      \<lparr>intent = send_text, slots = None, transition_msg = PNone\<rparr>]"

section \<open>The engine: \<^verbatim>\<open>set_context_and_handle\<close>\<close>

text \<open>
  The function returns a pair of the kind of response (\<^verbatim>\<open>"question"\<close> or
  \<^verbatim>\<open>"statement"\<close>) and the message.
\<close>

type_synonym reply = "string \<times> pyval"

text \<open>
  Lines 54 to 57: the incoming pair is stored when both the slot and the value are truthy.
  The calls of \<^verbatim>\<open>print\<close> write to the standard output only and are left out.
\<close>

definition set_attribute :: "pyval \<Rightarrow> pyval \<Rightarrow> session \<Rightarrow> session" where
  "set_attribute slot val attributes =
     (if truthy slot \<and> truthy val
      then (case slot of PStr k \<Rightarrow> attributes(k \<mapsto> val) | PNone \<Rightarrow> attributes)
      else attributes)"

text \<open>
  Lines 64 to 70, the inner loop over the slots of a step: the first slot whose name is not
  a key of the session makes the function return a question with that slot's prompt
  (\<open>Some\<close>); when the loop ends without returning the result is \<open>None\<close>.
\<close>

fun for_s_in :: "slot_entry list \<Rightarrow> session \<Rightarrow> reply option" where
  "for_s_in [] attributes = None"
| "for_s_in (s # rest) attributes =
     (if attributes (slot_name s) = None then Some (''question'', PStr (prompt s))
      else for_s_in rest attributes)"

text \<open>
  Lines 63 to 78, the body of the outer loop for one step \<open>seq\<close>. Iterating over
  \<^verbatim>\<open>None\<close> raises a \<^verbatim>\<open>TypeError\<close>. The result \<open>Inr (Some r)\<close> is a
  \<^verbatim>\<open>return\<close> of the function, \<open>Inl e\<close> an exception, and \<open>Inr None\<close> would be
  the body ending without a \<^verbatim>\<open>return\<close>, so that the loop goes on to the next step.
\<close>

definition handle_seq :: "step \<Rightarrow> session \<Rightarrow> error + reply option" where
  "handle_seq seq attributes =
     (case slots seq of
        None \<Rightarrow> Inl TypeError
      | Some intent_slots \<Rightarrow>
          (case for_s_in intent_slots attributes of
             Some r \<Rightarrow> Inr (Some r)
           | None \<Rightarrow>
               (case intent seq attributes of
                  Inl e \<Rightarrow> Inl e
                | Inr final_msg \<Rightarrow>
                    if truthy (transition_msg seq)
                    then (case py_add final_msg (PStr ''...'') of
                            Inl e \<Rightarrow> Inl e
                          | Inr m \<Rightarrow>
                              (case py_add m (transition_msg seq) of
                                 Inl e \<Rightarrow> Inl e
                               | Inr final_msg' \<Rightarrow> Inr (Some (''question'', final_msg'))))
                    else Inr (Some (''statement'', final_msg)))))"

text \<open>
  Line 60, the outer loop \<^verbatim>\<open>for seq in dialog\<close>. A function whose loop ends without a
  \<^verbatim>\<open>return\<close> returns \<^verbatim>\<open>None\<close>: the result \<open>Inr None\<close>.
\<close>

fun for_seq_in :: "step list \<Rightarrow> session \<Rightarrow> error + reply option" where
  "for_seq_in [] attributes = Inr None"
| "for_seq_in (seq # rest) attributes =
     (case handle_seq seq attributes of
        Inl e \<Rightarrow> Inl e
      | Inr (Some r) \<Rightarrow> Inr (Some r)
      | Inr None \<Rightarrow> for_seq_in rest attributes)"

text \<open>
  The whole function, over any list of steps: the session after the call, and the value
  returned or the exception raised. The session keeps the stored pair when the scan raises.
\<close>

definition set_context_and_handle_on ::
  "step list \<Rightarrow> pyval \<Rightarrow> pyval \<Rightarrow> session \<Rightarrow> session \<times> (error + reply option)" where
  "set_context_and_handle_on d slot val attributes =
     (let attributes' = set_attribute slot val attributes
      in (attributes', for_seq_in d attributes'))"

text \<open>The function of the source, over the module's \<^verbatim>\<open>dialog\<close>.\<close>

definition set_context_and_handle ::
  "pyval \<Rightarrow> pyval \<Rightarrow> session \<Rightarrow> session \<times> (error + reply option)" where
  "set_context_and_handle = set_context_and_handle_on dialog"

text \<open>
  The session of the walk-through of the specification, after its first four calls: a call
  with no slot on an empty session, then Station, Line and Direction in this order.
\<close>

definition after_four_calls :: session where
  "after_four_calls =
     fst (set_context_and_handle (PStr ''Direction'') (PStr ''Inbound'')
       (fst (set_context_and_handle (PStr ''Line'') (PStr ''Red'')
         (fst (set_context_and_handle (PStr ''Station'') (PStr ''Park St'')
           (fst (set_context_and_handle PNone PNone Map.empty)))))))"

section \<open>Facts about the loops\<close>

text \<open>Every path through the body of the outer loop ends in a return or an exception.\<close>

lemma handle_seq_returns: "handle_seq seq attributes \<noteq> Inr None"
  by (simp add: handle_seq_def split: option.splits sum.splits)

lemma for_seq_in_Cons: "for_seq_in (seq # rest) attributes = handle_seq seq attributes"
  using handle_seq_returns [of seq attributes]
  by (simp split: sum.splits option.splits)

text \<open>The inner loop stops at the first slot that is not a key of the session.\<close>

lemma for_s_in_find:
  "for_s_in ss attributes =
     (case find (\<lambda>s. attributes (slot_name s) = None) ss of
        None \<Rightarrow> None
      | Some s \<Rightarrow> Some (''question'', PStr (prompt s)))"
  by (induction ss) simp_all

lemma for_s_in_None:
  "for_s_in ss attributes = None \<longleftrightarrow> list_all (\<lambda>s. attributes (slot_name s) \<noteq> None) ss"
  by (induction ss) simp_all

lemma snd_set_context_and_handle_on:
  "snd (set_context_and_handle_on d slot val attributes) =
     for_seq_in d (set_attribute slot val attributes)"
  by (simp add: set_context_and_handle_on_def Let_def)

lemma set_attribute_keeps:
  "attributes k \<noteq> None \<Longrightarrow> set_attribute slot val attributes k \<noteq> None"
  by (simp add: set_attribute_def split: pyval.splits)

section \<open>Facts about the module's dialog\<close>

lemma get_next_train_present:
  "attributes ''Station'' = Some st \<Longrightarrow> attributes ''Line'' = Some ln \<Longrightarrow>
   attributes ''Direction'' = Some di \<Longrightarrow>
   get_next_train attributes =
     Inr (PStr (''The next '' @ py_str di @ '' '' @ py_str ln @ '' train from '' @ py_str st
                @ '' leaves in 5 minutes.''))"
  by (simp add: get_next_train_def getitem_def)

lemma set_context_and_handle_unfold:
  "set_context_and_handle slot val attributes =
     (set_attribute slot val attributes,
      handle_seq (hd dialog) (set_attribute slot val attributes))"
  by (simp add: set_context_and_handle_def set_context_and_handle_on_def Let_def dialog_def
      for_seq_in_Cons del: for_seq_in.simps)

lemma handle_first_step:
  "handle_seq (hd dialog) attributes =
     (case for_s_in schedule_slots attributes of
        Some r \<Rightarrow> Inr (Some r)
      | None \<Rightarrow>
          (case get_next_train attributes of
             Inl e \<Rightarrow> Inl e
           | Inr final_msg \<Rightarrow>
               (case py_add final_msg (PStr ''...'') of
                  Inl e \<Rightarrow> Inl e
                | Inr m \<Rightarrow>
                    (case py_add m (PStr ''Should I text you?'') of
                       Inl e \<Rightarrow> Inl e
                     | Inr final_msg' \<Rightarrow> Inr (Some (''question'', final_msg'))))))"
  by (simp add: dialog_def handle_seq_def split: option.splits sum.splits)

lemma schedule_slots_present:
  "for_s_in schedule_slots attributes = None \<longleftrightarrow>
     attributes ''Station'' \<noteq> None \<and> attributes ''Line'' \<noteq> None
     \<and> attributes ''Direction'' \<noteq> None"
  by (simp add: schedule_slots_def)

lemma handle_first_step_complete:
  assumes "attributes ''Station'' = Some st" and "attributes ''Line'' = Some ln"
    and "attributes ''Direction'' = Some di"
  shows "handle_seq (hd dialog) attributes =
     Inr (Some (''question'',
       PStr (''The next '' @ py_str di @ '' '' @ py_str ln @ '' train from '' @ py_str st
             @ '' leaves in 5 minutes.'' @ ''...'' @ ''Should I text you?'')))"
proof -
  have "for_s_in schedule_slots attributes = None"
    using assms by (simp add: schedule_slots_present)
  then show ?thesis
    by (simp add: handle_first_step get_next_train_present [OF assms])
qed

text \<open>On the module's dialog the first step never raises, whatever the session holds.\<close>

lemma handle_first_step_no_error: "handle_seq (hd dialog) attributes \<noteq> Inl e"
proof (cases "for_s_in schedule_slots attributes")
  case None
  then obtain st ln di where "attributes ''Station'' = Some st"
    "attributes ''Line'' = Some ln" "attributes ''Direction'' = Some di"
    by (auto simp: schedule_slots_present)
  then show ?thesis
    by (simp add: handle_first_step_complete)
next
  case (Some r)
  then show ?thesis
    by (simp add: handle_first_step)
qed

lemma find_incomplete_dialog:
  assumes "find (\<lambda>seq. case slots seq of None \<Rightarrow> False
                    | Some ss \<Rightarrow> list_ex (\<lambda>s. attributes (slot_name s) = None) ss) dialog
           = Some seq"
  shows "seq = hd dialog"
  using assms by (simp add: dialog_def split: if_splits)

lemma after_four_calls_eq:
  "after_four_calls =
     [''Station'' \<mapsto> PStr ''Park St'', ''Line'' \<mapsto> PStr ''Red'',
      ''Direction'' \<mapsto> PStr ''Inbound'']"
  by (simp add: after_four_calls_def set_context_and_handle_unfold set_attribute_def)

section \<open>The claims\<close>

subsection \<open>C1: the fifth call of the walk-through\<close>

text \<open>
  Claim C1 says that, once the session holds Station, Line and Direction, a further call
  with no incoming slot returns a statement carrying the result of \<^verbatim>\<open>send_text\<close>. On the
  code it does not: the call evaluates the first step again and returns the question of the
  fourth call. \<^verbatim>\<open>send_text\<close> returns \<^verbatim>\<open>None\<close>, so the statement of the claim would be
  \<open>(''statement'', PNone)\<close>.
\<close>

theorem fifth_call_counterexample:
  "snd (set_context_and_handle PNone PNone after_four_calls) =
     Inr (Some (''question'',
       PStr ''The next Inbound Red train from Park St leaves in 5 minutes....Should I text you?''))
   \<and> send_text after_four_calls = Inr PNone
   \<and> snd (set_context_and_handle PNone PNone after_four_calls) \<noteq>
       Inr (Some (''statement'', PNone))"
  by (simp add: after_four_calls_eq set_context_and_handle_unfold set_attribute_def
      handle_first_step_complete send_text_def)

text \<open>
  Claim C1, amended: in every session that holds Station, Line and Direction, a call with
  no incoming slot leaves the session as it is and returns the question made of the result
  of \<^verbatim>\<open>get_next_train\<close>, three dots and \<^verbatim>\<open>Should I text you?\<close>; the handler of the first
  step runs again.
\<close>

theorem fifth_call_repeats_first_step:
  assumes "attributes ''Station'' = Some st" and "attributes ''Line'' = Some ln"
    and "attributes ''Direction'' = Some di"
  shows "set_context_and_handle PNone PNone attributes =
     (attributes, Inr (Some (''question'',
        PStr (''The next '' @ py_str di @ '' '' @ py_str ln @ '' train from '' @ py_str st
              @ '' leaves in 5 minutes.'' @ ''...'' @ ''Should I text you?''))))"
  using assms
  by (simp add: set_context_and_handle_unfold set_attribute_def handle_first_step_complete)

theorem fifth_call_repeats_first_step_witness:
  "after_four_calls ''Station'' = Some (PStr ''Park St'')
   \<and> after_four_calls ''Line'' = Some (PStr ''Red'')
   \<and> after_four_calls ''Direction'' = Some (PStr ''Inbound'')
   \<and> set_context_and_handle PNone PNone after_four_calls =
       (after_four_calls, Inr (Some (''question'',
          PStr ''The next Inbound Red train from Park St leaves in 5 minutes....Should I text you?'')))"
proof -
  have s: "after_four_calls ''Station'' = Some (PStr ''Park St'')"
    and l: "after_four_calls ''Line'' = Some (PStr ''Red'')"
    and d: "after_four_calls ''Direction'' = Some (PStr ''Inbound'')"
    by (simp_all add: after_four_calls_eq)
  show ?thesis
    using s l d fifth_call_repeats_first_step [OF s l d] by simp
qed

subsection \<open>C2: one step per call\<close>

text \<open>
  Claim C2: a call evaluates exactly one step, the first of the list. Over any non-empty
  list of steps, after the write the call either returns the question with the prompt of
  the first slot of that step that is not a key of the session, or, when no slot is missing,
  runs that step's handler and returns its outcome: the handler's exception, the question
  of its result, three dots and the transition message, or the statement of its result
  (adding a string to a \<^verbatim>\<open>None\<close> result raises; so does a \<^verbatim>\<open>None\<close> slot list). The
  steps after the first are never evaluated: the call is the same with those steps removed,
  and the source's function is the call on the first step of its dialog alone.
\<close>

theorem one_step_per_call:
  "set_context_and_handle_on (seq # rest) slot val attributes =
     (set_attribute slot val attributes,
      (case slots seq of
         None \<Rightarrow> Inl TypeError
       | Some ss \<Rightarrow>
           (case find (\<lambda>s. set_attribute slot val attributes (slot_name s) = None) ss of
              Some s \<Rightarrow> Inr (Some (''question'', PStr (prompt s)))
            | None \<Rightarrow>
                (case intent seq (set_attribute slot val attributes) of
                   Inl e \<Rightarrow> Inl e
                 | Inr r \<Rightarrow>
                     if truthy (transition_msg seq)
                     then (case r of
                             PNone \<Rightarrow> Inl TypeError
                           | PStr m \<Rightarrow>
                               Inr (Some (''question'',
                                 PStr (m @ ''...'' @ py_str (transition_msg seq)))))
                     else Inr (Some (''statement'', r))))))
   \<and> set_context_and_handle_on (seq # rest) slot val attributes =
       set_context_and_handle_on [seq] slot val attributes
   \<and> set_context_and_handle slot val attributes =
       set_context_and_handle_on [hd dialog] slot val attributes"
proof -
  let ?a = "set_attribute slot val attributes"
  have body: "handle_seq seq ?a =
      (case slots seq of
         None \<Rightarrow> Inl TypeError
       | Some ss \<Rightarrow>
           (case find (\<lambda>s. ?a (slot_name s) = None) ss of
              Some s \<Rightarrow> Inr (Some (''question'', PStr (prompt s)))
            | None \<Rightarrow>
                (case intent seq ?a of
                   Inl e \<Rightarrow> Inl e
                 | Inr r \<Rightarrow>
                     if truthy (transition_msg seq)
                     then (case r of
                             PNone \<Rightarrow> Inl TypeError
                           | PStr m \<Rightarrow>
                               Inr (Some (''question'',
                                 PStr (m @ ''...'' @ py_str (transition_msg seq)))))
                     else Inr (Some (''statement'', r)))))"
  proof (cases "transition_msg seq")
    case PNone
    then show ?thesis
      by (simp add: handle_seq_def for_s_in_find split: option.splits sum.splits)
  next
    case (PStr t)
    then show ?thesis
      by (auto simp: handle_seq_def for_s_in_find split: option.splits sum.splits pyval.splits)
  qed
  have call: "set_context_and_handle_on (seq # rest') slot val attributes = (?a, handle_seq seq ?a)"
    for rest'
    by (simp add: set_context_and_handle_on_def Let_def for_seq_in_Cons del: for_seq_in.simps)
  have "set_context_and_handle slot val attributes =
      set_context_and_handle_on [hd dialog] slot val attributes"
    by (simp add: set_context_and_handle_def set_context_and_handle_on_def Let_def dialog_def
        for_seq_in_Cons del: for_seq_in.simps)
  then show ?thesis
    using body by (simp add: call)
qed

text \<open>
  On the module's dialog: a question for the missing slot Line, and the outcome of the
  handler once the last slot arrives. On a list whose second step has no slot list and a
  handler that raises: the statement of the first step.
\<close>

theorem one_step_per_call_witness:
  "set_context_and_handle PNone PNone [''Station'' \<mapsto> PStr ''Park St''] =
     ([''Station'' \<mapsto> PStr ''Park St''], Inr (Some (''question'', PStr ''What line?'')))
   \<and> set_context_and_handle (PStr ''Direction'') (PStr ''Inbound'')
        [''Station'' \<mapsto> PStr ''Park St'', ''Line'' \<mapsto> PStr ''Red''] =
     ([''Station'' \<mapsto> PStr ''Park St'', ''Line'' \<mapsto> PStr ''Red'',
       ''Direction'' \<mapsto> PStr ''Inbound''],
      Inr (Some (''question'',
        PStr ''The next Inbound Red train from Park St leaves in 5 minutes....Should I text you?'')))
   \<and> set_context_and_handle_on
        [\<lparr>intent = send_text, slots = Some [], transition_msg = PNone\<rparr>,
         \<lparr>intent = (\<lambda>_. Inl KeyError), slots = None, transition_msg = PNone\<rparr>]
        PNone PNone Map.empty = (Map.empty, Inr (Some (''statement'', PNone)))"
proof -
  have hd: "hd dialog = \<lparr>intent = get_next_train, slots = Some schedule_slots,
      transition_msg = PStr ''Should I text you?''\<rparr>"
    by (simp add: dialog_def)
  have c1: "set_context_and_handle PNone PNone [''Station'' \<mapsto> PStr ''Park St''] =
     ([''Station'' \<mapsto> PStr ''Park St''], Inr (Some (''question'', PStr ''What line?'')))"
    using one_step_per_call [of "hd dialog" "[]" PNone PNone "[''Station'' \<mapsto> PStr ''Park St'']"]
      one_step_per_call [of "hd dialog" "tl dialog" PNone PNone "[''Station'' \<mapsto> PStr ''Park St'']"]
    by (simp add: hd set_attribute_def schedule_slots_def)
  have c2: "set_context_and_handle (PStr ''Direction'') (PStr ''Inbound'')
        [''Station'' \<mapsto> PStr ''Park St'', ''Line'' \<mapsto> PStr ''Red''] =
     ([''Station'' \<mapsto> PStr ''Park St'', ''Line'' \<mapsto> PStr ''Red'',
       ''Direction'' \<mapsto> PStr ''Inbound''],
      Inr (Some (''question'',
        PStr ''The next Inbound Red train from Park St leaves in 5 minutes....Should I text you?'')))"
    using one_step_per_call [of "hd dialog" "[]" "PStr ''Direction''" "PStr ''Inbound''"
        "[''Station'' \<mapsto> PStr ''Park St'', ''Line'' \<mapsto> PStr ''Red'']"]
    by (simp add: hd set_attribute_def schedule_slots_def get_next_train_def getitem_def)
  have c3: "set_context_and_handle_on
        [\<lparr>intent = send_text, slots = Some [], transition_msg = PNone\<rparr>,
         \<lparr>intent = (\<lambda>_. Inl KeyError), slots = None, transition_msg = PNone\<rparr>]
        PNone PNone Map.empty = (Map.empty, Inr (Some (''statement'', PNone)))"
    using one_step_per_call [of "\<lparr>intent = send_text, slots = Some [], transition_msg = PNone\<rparr>"
      "[\<lparr>intent = (\<lambda>_. Inl KeyError), slots = None, transition_msg = PNone\<rparr>]"
      PNone PNone Map.empty]
    by (simp add: set_attribute_def send_text_def)
  show ?thesis
    using c1 c2 c3 by simp
qed

subsection \<open>C3: the write before the scan\<close>

text \<open>
  Claim C3 says that a non-empty incoming slot name is written with its value
  unconditionally, also when the value is empty. The guard of line 54 tests the value too:
  with an empty string or \<^verbatim>\<open>None\<close> as the value nothing is written.
\<close>

theorem empty_value_not_written_counterexample:
  "fst (set_context_and_handle (PStr ''Station'') (PStr []) Map.empty) ''Station'' = None
   \<and> fst (set_context_and_handle (PStr ''Station'') PNone Map.empty) ''Station'' = None"
  by (simp add: set_context_and_handle_unfold set_attribute_def)

text \<open>
  Claim C3, amended: for every session and every non-empty incoming slot name, when the
  value is non-empty too the pair is written before the steps are scanned, and the scan
  runs on the session with the pair, whether or not the name is a slot of a step; when the
  value is empty or \<^verbatim>\<open>None\<close> the session is left as it is and scanned as it is.
\<close>

theorem write_before_scan:
  assumes "k \<noteq> []"
  shows "set_context_and_handle (PStr k) val attributes =
     (if truthy val then (attributes(k \<mapsto> val), for_seq_in dialog (attributes(k \<mapsto> val)))
      else (attributes, for_seq_in dialog attributes))"
  using assms
  by (simp add: set_context_and_handle_def set_context_and_handle_on_def set_attribute_def
      Let_def)

theorem write_before_scan_witness:
  "''Colour'' \<noteq> []
   \<and> set_context_and_handle (PStr ''Colour'') (PStr ''Blue'') [''Station'' \<mapsto> PStr ''Park St''] =
       ([''Station'' \<mapsto> PStr ''Park St'', ''Colour'' \<mapsto> PStr ''Blue''],
        Inr (Some (''question'', PStr ''What line?'')))
   \<and> set_context_and_handle (PStr ''Colour'') (PStr []) [''Station'' \<mapsto> PStr ''Park St''] =
       ([''Station'' \<mapsto> PStr ''Park St''], Inr (Some (''question'', PStr ''What line?'')))"
proof -
  have k: "''Colour'' \<noteq> []" by simp
  have scan:
    "for_seq_in dialog [''Station'' \<mapsto> PStr ''Park St'', ''Colour'' \<mapsto> PStr ''Blue''] =
       Inr (Some (''question'', PStr ''What line?''))"
    "for_seq_in dialog [''Station'' \<mapsto> PStr ''Park St''] =
       Inr (Some (''question'', PStr ''What line?''))"
    by (simp_all add: dialog_def handle_seq_def schedule_slots_def)
  show ?thesis
    using write_before_scan [OF k, of "PStr ''Blue''" "[''Station'' \<mapsto> PStr ''Park St'']"]
      write_before_scan [OF k, of "PStr []" "[''Station'' \<mapsto> PStr ''Park St'']"] scan
    by simp
qed

subsection \<open>C4: slot lists that are not null\<close>

text \<open>
  Claim C4 says that every step of the dialog has a slot list that is not null. The second
  step of the module's dialog has \<^verbatim>\<open>None\<close> as its slot list.
\<close>

theorem second_step_slots_counterexample: "slots (dialog ! 1) = None"
  by (simp add: dialog_def)

text \<open>
  Claim C4, amended: the step a call reaches, the first of the dialog, has a slot list, and
  for every session and every incoming pair the call does not fail by iterating over a
  null slot list: it raises no \<^verbatim>\<open>TypeError\<close>.
\<close>

theorem no_null_slot_iteration:
  "slots (hd dialog) = Some schedule_slots
   \<and> snd (set_context_and_handle slot val attributes) \<noteq> Inl TypeError"
  by (simp add: set_context_and_handle_unfold handle_first_step_no_error)
    (simp add: dialog_def)

subsection \<open>C5: the question asked\<close>

text \<open>
  Claim C5: when, in the session as the call's write left it, some step of the dialog has a
  slot list with a slot that is not a key of the session, the call returns a question whose
  text is the prompt of the first such slot, in declared order, of the first such step; one
  prompt per call. Here \<open>seq\<close> is the earliest incomplete step of the module's dialog,
  \<open>ss\<close> its slot list and \<open>s\<close> the earliest missing slot of \<open>ss\<close>.
\<close>

theorem asks_earliest_missing_slot:
  assumes "attributes' = fst (set_context_and_handle slot val attributes)"
    and "find (\<lambda>seq. case slots seq of None \<Rightarrow> False
                 | Some ss \<Rightarrow> list_ex (\<lambda>s. attributes' (slot_name s) = None) ss) dialog
         = Some seq"
    and "slots seq = Some ss"
    and "find (\<lambda>s. attributes' (slot_name s) = None) ss = Some s"
  shows "snd (set_context_and_handle slot val attributes) =
     Inr (Some (''question'', PStr (prompt s)))"
proof -
  have a: "attributes' = set_attribute slot val attributes"
    using assms(1) by (simp add: set_context_and_handle_unfold)
  have "seq = hd dialog"
    using assms(2) by (rule find_incomplete_dialog)
  with assms(3) have ss: "ss = schedule_slots"
    by (simp add: dialog_def)
  have "for_s_in schedule_slots attributes' = Some (''question'', PStr (prompt s))"
    using assms(4) by (simp add: for_s_in_find ss)
  then show ?thesis
    by (simp add: set_context_and_handle_unfold handle_first_step a)
qed

text \<open>With Station alone in the session the prompt is the one of Line, not of Direction.\<close>

theorem asks_earliest_missing_slot_witness:
  "[''Station'' \<mapsto> PStr ''Park St''] =
      fst (set_context_and_handle PNone PNone [''Station'' \<mapsto> PStr ''Park St''])
   \<and> find (\<lambda>seq. case slots seq of None \<Rightarrow> False
             | Some ss \<Rightarrow>
                 list_ex (\<lambda>s. [''Station'' \<mapsto> PStr ''Park St''] (slot_name s) = None) ss)
        dialog = Some (hd dialog)
   \<and> slots (hd dialog) = Some schedule_slots
   \<and> find (\<lambda>s. [''Station'' \<mapsto> PStr ''Park St''] (slot_name s) = None) schedule_slots =
        Some \<lparr>slot_name = ''Line'', prompt = ''What line?''\<rparr>
   \<and> snd (set_context_and_handle PNone PNone [''Station'' \<mapsto> PStr ''Park St'']) =
        Inr (Some (''question'', PStr ''What line?''))"
proof -
  let ?a = "[''Station'' \<mapsto> PStr ''Park St'']"
  have h1: "?a = fst (set_context_and_handle PNone PNone ?a)"
    by (simp add: set_context_and_handle_unfold set_attribute_def)
  have h2: "find (\<lambda>seq. case slots seq of None \<Rightarrow> False
             | Some ss \<Rightarrow> list_ex (\<lambda>s. ?a (slot_name s) = None) ss) dialog = Some (hd dialog)"
    by (simp add: dialog_def schedule_slots_def)
  have h3: "slots (hd dialog) = Some schedule_slots"
    by (simp add: dialog_def)
  have h4: "find (\<lambda>s. ?a (slot_name s) = None) schedule_slots =
      Some \<lparr>slot_name = ''Line'', prompt = ''What line?''\<rparr>"
    by (simp add: schedule_slots_def)
  show ?thesis
    using h1 h2 h3 h4 asks_earliest_missing_slot [OF h1 h2 h3 h4] by simp
qed

subsection \<open>C6: the outcome of a complete step\<close>

text \<open>
  Claim C6: over any list of steps, when every slot of the evaluated step \<open>seq\<close> is a key
  of the session as the write left it and the handler returns \<open>r\<close>: with a non-empty
  transition message and a handler result that is a string \<open>m\<close>, the call returns the
  question \<open>m\<close>, three dots, the transition message; with no transition message (or an
  empty one) it returns the statement \<open>r\<close>.
\<close>

theorem complete_step_outcome:
  assumes "slots seq = Some ss"
    and "attributes' = set_attribute slot val attributes"
    and "list_all (\<lambda>s. attributes' (slot_name s) \<noteq> None) ss"
    and "intent seq attributes' = Inr r"
  shows "if truthy (transition_msg seq)
         then \<forall>m. r = PStr m \<longrightarrow>
                snd (set_context_and_handle_on (seq # rest) slot val attributes) =
                  Inr (Some (''question'', PStr (m @ ''...'' @ py_str (transition_msg seq))))
         else snd (set_context_and_handle_on (seq # rest) slot val attributes) =
                Inr (Some (''statement'', r))"
proof -
  have "for_s_in ss attributes' = None"
    using assms(3) by (simp add: for_s_in_None)
  then have "handle_seq seq attributes' =
      (if truthy (transition_msg seq)
       then (case py_add r (PStr ''...'') of
               Inl e \<Rightarrow> Inl e
             | Inr m \<Rightarrow>
                 (case py_add m (transition_msg seq) of
                    Inl e \<Rightarrow> Inl e
                  | Inr final_msg' \<Rightarrow> Inr (Some (''question'', final_msg'))))
       else Inr (Some (''statement'', r)))"
    using assms(1,4) by (simp add: handle_seq_def)
  moreover have "snd (set_context_and_handle_on (seq # rest) slot val attributes) =
      handle_seq seq attributes'"
    by (simp add: snd_set_context_and_handle_on for_seq_in_Cons assms(2) del: for_seq_in.simps)
  ultimately show ?thesis
    by (cases "transition_msg seq") auto
qed

text \<open>
  The first half on the module's dialog and the session of the walk-through; the second
  half on a step with an empty slot list, the handler \<^verbatim>\<open>send_text\<close> and no transition
  message.
\<close>

theorem complete_step_outcome_witness:
  "slots (hd dialog) = Some schedule_slots
   \<and> list_all (\<lambda>s. after_four_calls (slot_name s) \<noteq> None) schedule_slots
   \<and> intent (hd dialog) after_four_calls =
        Inr (PStr ''The next Inbound Red train from Park St leaves in 5 minutes.'')
   \<and> truthy (transition_msg (hd dialog))
   \<and> snd (set_context_and_handle PNone PNone after_four_calls) =
        Inr (Some (''question'',
          PStr ''The next Inbound Red train from Park St leaves in 5 minutes....Should I text you?''))
   \<and> list_all (\<lambda>s. Map.empty (slot_name s) \<noteq> (None :: pyval option)) []
   \<and> \<not> truthy (transition_msg \<lparr>intent = send_text, slots = Some [], transition_msg = PNone\<rparr>)
   \<and> snd (set_context_and_handle_on
             [\<lparr>intent = send_text, slots = Some [], transition_msg = PNone\<rparr>]
             PNone PNone Map.empty) = Inr (Some (''statement'', PNone))"
proof -
  let ?m = "''The next Inbound Red train from Park St leaves in 5 minutes.''"
  let ?s2 = "\<lparr>intent = send_text, slots = Some [], transition_msg = PNone\<rparr>"
  have d: "dialog = hd dialog # tl dialog"
    by (simp add: dialog_def)
  have a1: "slots (hd dialog) = Some schedule_slots"
    by (simp add: dialog_def)
  have a2: "after_four_calls = set_attribute PNone PNone after_four_calls"
    by (simp add: set_attribute_def)
  have a3: "list_all (\<lambda>s. after_four_calls (slot_name s) \<noteq> None) schedule_slots"
    by (simp add: after_four_calls_eq schedule_slots_def)
  have a4: "intent (hd dialog) after_four_calls = Inr (PStr ?m)"
    by (simp add: dialog_def after_four_calls_eq get_next_train_def getitem_def)
  have t: "truthy (transition_msg (hd dialog))"
    "py_str (transition_msg (hd dialog)) = ''Should I text you?''"
    by (simp_all add: dialog_def)
  have b1: "slots ?s2 = Some []" by simp
  have b2: "Map.empty = set_attribute PNone PNone Map.empty"
    by (simp add: set_attribute_def)
  have b3: "list_all (\<lambda>s. Map.empty (slot_name s) \<noteq> (None :: pyval option)) []" by simp
  have b4: "intent ?s2 Map.empty = Inr PNone"
    by (simp add: send_text_def)
  have "snd (set_context_and_handle_on (hd dialog # tl dialog) PNone PNone after_four_calls) =
      Inr (Some (''question'', PStr (?m @ ''...'' @ ''Should I text you?'')))"
    using complete_step_outcome [OF a1 a2 a3 a4, of "tl dialog"] t by simp
  then have q: "snd (set_context_and_handle PNone PNone after_four_calls) =
      Inr (Some (''question'', PStr (?m @ ''...'' @ ''Should I text you?'')))"
    using d by (simp add: set_context_and_handle_def)
  have s: "snd (set_context_and_handle_on [?s2] PNone PNone Map.empty) =
      Inr (Some (''statement'', PNone))"
    using complete_step_outcome [OF b1 b2 b3 b4, of "[]"] by simp
  show ?thesis
    using a1 a3 a4 t(1) q s by simp
qed

subsection \<open>C7: no handler without its slots\<close>

text \<open>
  Claim C7: a handler is invoked only when every slot of its step is a key of the session.
  A handler that is invoked decides the outcome of the call, and an exception it raises
  ends the call; so the first part says that, over any list of steps, when some slot of
  the first step is missing from the session as the write left it, the call is the same for
  every two handlers \<open>h\<close> and \<open>h'\<close> of that step, among them the handler that always
  raises. The second part is on the module's dialog, where \<^verbatim>\<open>get_next_train\<close> raises a
  \<^verbatim>\<open>KeyError\<close> when it runs without one of its slots: no call raises it.
\<close>

theorem handler_needs_every_slot:
  "(list_ex (\<lambda>s. set_attribute slot val attributes (slot_name s) = None) ss \<longrightarrow>
      set_context_and_handle_on (\<lparr>intent = h, slots = Some ss, transition_msg = t\<rparr> # rest)
        slot val attributes =
      set_context_and_handle_on (\<lparr>intent = h', slots = Some ss, transition_msg = t\<rparr> # rest)
        slot val attributes)
   \<and> snd (set_context_and_handle slot val attributes) \<noteq> Inl KeyError"
proof -
  have "handle_seq \<lparr>intent = h, slots = Some ss, transition_msg = t\<rparr> a =
      handle_seq \<lparr>intent = h', slots = Some ss, transition_msg = t\<rparr> a"
    if "list_ex (\<lambda>s. a (slot_name s) = None) ss" for a
  proof -
    from that have "for_s_in ss a \<noteq> None"
      by (simp add: for_s_in_None list_all_iff list_ex_iff)
    then obtain r where "for_s_in ss a = Some r"
      by blast
    then show ?thesis
      by (simp add: handle_seq_def)
  qed
  then show ?thesis
    by (simp add: set_context_and_handle_on_def Let_def for_seq_in_Cons
        set_context_and_handle_unfold handle_first_step_no_error del: for_seq_in.simps)
qed

theorem handler_needs_every_slot_witness:
  "list_ex (\<lambda>s. set_attribute PNone PNone [''Station'' \<mapsto> PStr ''Park St''] (slot_name s) = None)
     schedule_slots
   \<and> set_context_and_handle_on
        (\<lparr>intent = get_next_train, slots = Some schedule_slots,
          transition_msg = PStr ''Should I text you?''\<rparr> # tl dialog)
        PNone PNone [''Station'' \<mapsto> PStr ''Park St''] =
      set_context_and_handle_on
        (\<lparr>intent = (\<lambda>_. Inl KeyError), slots = Some schedule_slots,
          transition_msg = PStr ''Should I text you?''\<rparr> # tl dialog)
        PNone PNone [''Station'' \<mapsto> PStr ''Park St'']
   \<and> snd (set_context_and_handle PNone PNone [''Station'' \<mapsto> PStr ''Park St'']) \<noteq> Inl KeyError"
proof -
  have m: "list_ex
      (\<lambda>s. set_attribute PNone PNone [''Station'' \<mapsto> PStr ''Park St''] (slot_name s) = None)
      schedule_slots"
    by (simp add: set_attribute_def schedule_slots_def)
  show ?thesis
    using m handler_needs_every_slot [of PNone PNone "[''Station'' \<mapsto> PStr ''Park St'']"
        schedule_slots get_next_train "PStr ''Should I text you?''" "tl dialog"
        "\<lambda>_. Inl KeyError"]
    by simp
qed

subsection \<open>C8: slots stay set\<close>

text \<open>
  Claim C8: a key of the session is still a key, with some value, after any sequence of
  calls, whatever their incoming pairs.
\<close>

theorem set_slots_stay_set:
  assumes "attributes k \<noteq> None"
  shows "fold (\<lambda>(slot, val) a. fst (set_context_and_handle slot val a)) calls attributes k
         \<noteq> None"
  using assms
proof (induction calls arbitrary: attributes)
  case Nil
  then show ?case by simp
next
  case (Cons c calls)
  obtain slot val where c: "c = (slot, val)"
    by (cases c)
  have "fst (set_context_and_handle slot val attributes) k \<noteq> None"
    using Cons.prems by (simp add: set_context_and_handle_unfold set_attribute_keeps)
  then show ?case
    using Cons.IH c by simp
qed

theorem set_slots_stay_set_witness:
  "[''Station'' \<mapsto> PStr ''Park St''] ''Station'' \<noteq> None
   \<and> fold (\<lambda>(slot, val) a. fst (set_context_and_handle slot val a))
        [(PStr ''Line'', PStr ''Red''), (PNone, PNone), (PStr ''Station'', PStr ''Alewife'')]
        [''Station'' \<mapsto> PStr ''Park St''] ''Station'' \<noteq> None"
proof -
  have h: "[''Station'' \<mapsto> PStr ''Park St''] ''Station'' \<noteq> None" by simp
  show ?thesis
    using h set_slots_stay_set [where attributes = "[''Station'' \<mapsto> PStr ''Park St'']"
        and k = "''Station''"
        and calls = "[(PStr ''Line'', PStr ''Red''), (PNone, PNone),
                      (PStr ''Station'', PStr ''Alewife'')]"]
    by blast
qed

subsection \<open>C9: the same pair twice\<close>

text \<open>
  Claim C9: two calls with the same incoming pair leave the session as one call with that
  pair does.
\<close>

theorem same_pair_twice:
  "fst (set_context_and_handle slot val (fst (set_context_and_handle slot val attributes))) =
     fst (set_context_and_handle slot val attributes)"
  by (simp add: set_context_and_handle_unfold set_attribute_def split: pyval.splits)

theorem same_pair_twice_witness:
  "fst (set_context_and_handle (PStr ''Line'') (PStr ''Red'')
     (fst (set_context_and_handle (PStr ''Line'') (PStr ''Red'')
        [''Line'' \<mapsto> PStr ''Blue'']))) = [''Line'' \<mapsto> PStr ''Red'']"
  using same_pair_twice [of "PStr ''Line''" "PStr ''Red''" "[''Line'' \<mapsto> PStr ''Blue'']"]
  by (simp add: set_context_and_handle_unfold set_attribute_def)

subsection \<open>C10: the other entries\<close>

text \<open>
  Claim C10: a call changes no entry of the session whose key is not the incoming slot
  name. The handlers read the session and return a value; none of them writes to it.
\<close>

theorem other_entries_unchanged:
  assumes "slot \<noteq> PStr k"
  shows "fst (set_context_and_handle slot val attributes) k = attributes k"
  using assms
  by (simp add: set_context_and_handle_unfold set_attribute_def split: pyval.splits)

theorem other_entries_unchanged_witness:
  "PStr ''Line'' \<noteq> PStr ''Station''
   \<and> fst (set_context_and_handle (PStr ''Line'') (PStr ''Red'') [''Station'' \<mapsto> PStr ''Park St''])
        ''Station'' = Some (PStr ''Park St'')"
proof -
  have h: "PStr ''Line'' \<noteq> PStr ''Station''" by simp
  show ?thesis
    using h other_entries_unchanged [OF h, of "PStr ''Red''" "[''Station'' \<mapsto> PStr ''Park St'']"]
    by simp
qed

end
